theory Spec2Isabelle
  imports Complex_Main
begin

section \<open>JavaScript values\<close>

text \<open>
  The product-identification pipeline of ExpiryScanner (\<^verbatim>\<open>services/aiAnalysis.ts\<close>) and
  the manual-entry screen (\<^verbatim>\<open>ManualEntryScreen\<close>) are TypeScript running on a JavaScript
  engine. The payloads they inspect are untyped at run time (\<^verbatim>\<open>any\<close>), so the model uses
  a datatype of JavaScript values: the values \<^verbatim>\<open>JSON.parse\<close> can produce, \<^verbatim>\<open>undefined\<close>
  (what reading a missing property gives) and \<^verbatim>\<open>Date\<close> objects, which
  \<^verbatim>\<open>calculateShelfLifeDays\<close> accepts.

  Strings are \<^typ>\<open>string\<close>: sequences of code units below 256 (the Latin-1 range of
  UTF-16). A \<^verbatim>\<open>Date\<close> holds its time value, an integer number of milliseconds, or
  \<^verbatim>\<open>NaN\<close> for an invalid date, written \<^term>\<open>None\<close>.
\<close>

datatype jsval =
    JUndefined
  | JNull
  | JBool bool
  | JNum rat
  | JStr string
  | JArr "jsval list"
  | JObj "(string \<times> jsval) list"
  | JDate "int option"

text \<open>Truthiness, as \<^verbatim>\<open>if (v)\<close>, \<^verbatim>\<open>!v\<close> and \<^verbatim>\<open>v || w\<close> read a value.\<close>

fun truthy :: "jsval \<Rightarrow> bool" where
  "truthy JUndefined = False"
| "truthy JNull = False"
| "truthy (JBool b) = b"
| "truthy (JNum q) = (q \<noteq> 0)"
| "truthy (JStr s) = (s \<noteq> [])"
| "truthy (JArr vs) = True"
| "truthy (JObj kvs) = True"
| "truthy (JDate t) = True"

text \<open>\<^verbatim>\<open>a || b\<close>: the left operand when it is truthy, the right one otherwise.\<close>

definition js_or :: "jsval \<Rightarrow> jsval \<Rightarrow> jsval" where
  "js_or a b = (if truthy a then a else b)"

text \<open>
  Exceptions. An \<^verbatim>\<open>AIAnalysisError\<close> is modelled by its \<^verbatim>\<open>code\<close>, a string as in the
  source; its display message and the retained original error are not modelled: no branch
  of the source reads them back. \<^verbatim>\<open>OtherError\<close> stands for whatever else the remote call
  may throw (anything that is not an \<^verbatim>\<open>AIAnalysisError\<close>).
\<close>

datatype exn =
    TypeError
  | SyntaxError
  | OtherError
  | AIAnalysisError (error_code: string)

text \<open>
  Reading a property \<^verbatim>\<open>v.k\<close>. On \<^verbatim>\<open>undefined\<close> and \<^verbatim>\<open>null\<close> it throws a TypeError; on
  an object it gives the field or \<^verbatim>\<open>undefined\<close>; on the other values it gives
  \<^verbatim>\<open>undefined\<close> for each of the property names the source reads (none of them is a
  built-in property of a string, number, boolean, array or Date).
\<close>

definition field :: "(string \<times> jsval) list \<Rightarrow> string \<Rightarrow> jsval" where
  "field kvs k = (case map_of kvs k of None \<Rightarrow> JUndefined | Some v \<Rightarrow> v)"

fun getProp :: "jsval \<Rightarrow> string \<Rightarrow> exn + jsval" where
  "getProp JUndefined k = Inl TypeError"
| "getProp JNull k = Inl TypeError"
| "getProp (JObj kvs) k = Inr (field kvs k)"
| "getProp v k = Inr JUndefined"

text \<open>Sequencing of computations that may throw.\<close>

definition bind :: "exn + 'a \<Rightarrow> ('a \<Rightarrow> exn + 'b) \<Rightarrow> exn + 'b" where
  "bind m f = (case m of Inl e \<Rightarrow> Inl e | Inr x \<Rightarrow> f x)"

text \<open>\<^verbatim>\<open>try { body } catch (e) { handler }\<close>.\<close>

definition try_catch :: "exn + 'a \<Rightarrow> (exn \<Rightarrow> exn + 'a) \<Rightarrow> exn + 'a" where
  "try_catch body handler = (case body of Inl e \<Rightarrow> handler e | Inr x \<Rightarrow> Inr x)"

section \<open>The platform\<close>

text \<open>
  What the code takes from outside itself: the JSON parser (\<^term>\<open>None\<close> when
  \<^verbatim>\<open>JSON.parse\<close> throws a SyntaxError), the time value \<^verbatim>\<open>new Date(s).getTime()\<close> of a
  string (\<^term>\<open>None\<close> for \<^verbatim>\<open>NaN\<close>, an invalid date; the accepted formats depend on
  the engine), and the clock \<^verbatim>\<open>new Date().getTime()\<close>.
\<close>

record platform =
  JSON_parse :: "string \<Rightarrow> jsval option"
  Date_parse :: "string \<Rightarrow> int option"
  Date_now :: int

section \<open>Shelf life\<close>

text \<open>
  A day count is an integer or \<^verbatim>\<open>NaN\<close>. \<^verbatim>\<open>Math.ceil(diffTime / (1000 * 60 * 60 * 24))\<close>
  is the integer ceiling of the quotient: time values are integers of magnitude at most
  8.64e15, so the quotient, when it is not an integer, is further from every integer
  than the rounding error of the division.
\<close>

datatype daycount = NaN | Days int

definition ms_per_day :: int where
  "ms_per_day = 1000 * 60 * 60 * 24"

definition diffDays :: "int option \<Rightarrow> int \<Rightarrow> daycount" where
  "diffDays expiry now =
     (case expiry of
        None \<Rightarrow> NaN
      | Some t \<Rightarrow> Days \<lceil>rat_of_int (t - now) / rat_of_int ms_per_day\<rceil>)"

text \<open>
  \<^verbatim>\<open>calculateShelfLifeDays\<close> (aiAnalysis.ts, lines 373-392). The argument is whatever the
  payload holds under \<^verbatim>\<open>expiryDate\<close>. \<^verbatim>\<open>expiry.getTime()\<close> throws a TypeError on a
  value that is neither a string (converted first) nor a \<^verbatim>\<open>Date\<close>; the \<^verbatim>\<open>catch\<close>
  turns it into 7.
\<close>

definition getTime :: "jsval \<Rightarrow> exn + int option" where
  "getTime v = (case v of JDate t \<Rightarrow> Inr t | _ \<Rightarrow> Inl TypeError)"

definition calculateShelfLifeDays :: "platform \<Rightarrow> jsval \<Rightarrow> exn + daycount" where
  "calculateShelfLifeDays P expiryDate =
     (if \<not> truthy expiryDate then Inr (Days 7)
      else try_catch
        (let expiry = (case expiryDate of JStr s \<Rightarrow> JDate (Date_parse P s) | _ \<Rightarrow> expiryDate)
         in bind (getTime expiry) (\<lambda>t. Inr (diffDays t (Date_now P))))
        (\<lambda>e. Inr (Days 7)))"

section \<open>Strings\<close>

text \<open>
  \<^verbatim>\<open>String.prototype.startsWith\<close>, \<^verbatim>\<open>includes\<close> and \<^verbatim>\<open>toLowerCase\<close>. On code units
  below 256 the lower-case mapping moves A-Z and the accented capitals U+00C0-U+00DE
  (the multiplication sign U+00D7 apart) up by 32 and leaves the rest alone.
\<close>

definition startsWith :: "string \<Rightarrow> string \<Rightarrow> bool" where
  "startsWith s p = (take (length p) s = p)"

fun str_includes :: "string \<Rightarrow> string \<Rightarrow> bool" where
  "str_includes [] p = (p = [])"
| "str_includes (c # cs) p = (startsWith (c # cs) p \<or> str_includes cs p)"

definition lower_char :: "char \<Rightarrow> char" where
  "lower_char c =
     (let n = (of_char c :: nat)
      in if (65 \<le> n \<and> n \<le> 90) \<or> (192 \<le> n \<and> n \<le> 222 \<and> n \<noteq> 215)
         then char_of (n + 32) else c)"

definition toLowerCase :: "string \<Rightarrow> string" where
  "toLowerCase s = map lower_char s"

text \<open>An optional string (\<^verbatim>\<open>string | undefined\<close>) is falsy when absent or empty.\<close>

definition truthy_str :: "string option \<Rightarrow> bool" where
  "truthy_str s = (case s of None \<Rightarrow> False | Some t \<Rightarrow> t \<noteq> [])"

definition or_str :: "string option \<Rightarrow> string option \<Rightarrow> string option" where
  "or_str a b = (if truthy_str a then a else b)"

definition or_empty :: "string option \<Rightarrow> string" where
  "or_empty a = (case a of None \<Rightarrow> [] | Some t \<Rightarrow> t)"

section \<open>analyzeProduct: data\<close>

record AnalyzeProductOptions =
  barcode :: "string option"
  imageUri :: "string option"
  code :: "string option"

record ProductAnalysisResult =
  name :: jsval
  category :: jsval
  shelfLifeDays :: daycount
  confidenceScore :: jsval
  expiryDate :: jsval
  manualEntryRequired :: jsval

text \<open>
  \<^verbatim>\<open>isSupabaseConfigured\<close> lives in \<^verbatim>\<open>lib/supabase\<close>, outside the sources at hand: its
  verdict is a field of the configuration, next to the two environment variables
  (\<^term>\<open>None\<close> when a variable is not set).
\<close>

record config =
  isSupabaseConfigured :: bool
  EXPO_PUBLIC_SUPABASE_URL :: "string option"
  EXPO_PUBLIC_SUPABASE_ANON_KEY :: "string option"

text \<open>The body handed to \<^verbatim>\<open>supabase.functions.invoke('analyze-product', { body })\<close>.\<close>

record invoke_body =
  body_code :: string
  body_imageUri :: "string option"

text \<open>
  The error object of a failed invocation, as far as the code reads it. A blob is what
  its \<^verbatim>\<open>text()\<close> does: resolve with a string, or reject (\<^term>\<open>None\<close>).
  \<^verbatim>\<open>ctx_bodyInit\<close> is present when \<^verbatim>\<open>context._bodyInit._data\<close> is truthy and then
  says what \<^verbatim>\<open>new Response(context._bodyInit).text()\<close> does. \<^verbatim>\<open>err_serialisable\<close> says
  whether \<^verbatim>\<open>JSON.stringify(error, null, 2)\<close> returns: on an object that holds a
  circular reference or a BigInt, or whose \<^verbatim>\<open>toJSON\<close> throws, it throws instead.
\<close>

datatype blob = Blob "string option"

datatype context_body = BodyString string | BodyBlob blob | BodyOther

record response_context =
  ctx_status :: "int option"
  ctx_bodyBlob :: "blob option"
  ctx_bodyUsed :: bool
  ctx_bodyInit :: "blob option"
  ctx_body :: "context_body option"

record invoke_error =
  err_context :: "response_context option"
  err_status :: "int option"
  err_message :: "string option"
  err_serialisable :: bool

text \<open>
  What the awaited call does: resolve with \<^verbatim>\<open>{ data, error }\<close> (\<^verbatim>\<open>error\<close> is
  \<^verbatim>\<open>null\<close> on success), or throw.
\<close>

datatype invoke_outcome =
    Resolved jsval "invoke_error option"
  | Rejected

section \<open>analyzeProduct: a failed invocation (lines 130-278)\<close>

text \<open>
  Writing to the console does not throw and is left out, here and below. Line 180 is
  kept: it serialises the error object for the log, inside the outer \<^verbatim>\<open>try\<close>, after
  the error body has been read and before it is parsed, and it throws a TypeError on an
  error object that cannot be serialised.
\<close>

definition JSON_stringify :: "invoke_error \<Rightarrow> exn + unit" where
  "JSON_stringify error = (if err_serialisable error then Inr () else Inl TypeError)"

definition blob_text :: "blob \<Rightarrow> exn + string" where
  "blob_text b = (case b of Blob None \<Rightarrow> Inl OtherError | Blob (Some s) \<Rightarrow> Inr s)"

text \<open>\<^verbatim>\<open>error.context?.status || error.status\<close> (0 is falsy).\<close>

definition errorStatus :: "invoke_error \<Rightarrow> int option" where
  "errorStatus error =
     (case err_context error of
        None \<Rightarrow> err_status error
      | Some c \<Rightarrow>
          (case ctx_status c of
             None \<Rightarrow> err_status error
           | Some n \<Rightarrow> if n \<noteq> 0 then Some n else err_status error))"

text \<open>
  The four reads of the error body, in the order of the source; \<^verbatim>\<open>errorBody\<close> starts
  as \<^verbatim>\<open>null\<close> (\<^term>\<open>None\<close>), and a read that throws leaves it as it was.
\<close>

definition method1 :: "invoke_error \<Rightarrow> string option \<Rightarrow> string option" where
  "method1 error errorBody =
     (case err_context error of
        None \<Rightarrow> errorBody
      | Some c \<Rightarrow>
          (case ctx_bodyBlob c of
             None \<Rightarrow> errorBody
           | Some b \<Rightarrow>
               if \<not> ctx_bodyUsed c
               then (case blob_text b of Inl e \<Rightarrow> errorBody | Inr bodyText \<Rightarrow> Some bodyText)
               else errorBody))"

definition method2 :: "invoke_error \<Rightarrow> string option \<Rightarrow> string option" where
  "method2 error errorBody =
     (if truthy_str errorBody then errorBody
      else case err_context error of
        None \<Rightarrow> errorBody
      | Some c \<Rightarrow>
          (case ctx_bodyInit c of
             None \<Rightarrow> errorBody
           | Some b \<Rightarrow>
               (case blob_text b of Inl e \<Rightarrow> errorBody | Inr bodyText \<Rightarrow> Some bodyText)))"

definition method3 :: "invoke_error \<Rightarrow> string option \<Rightarrow> string option" where
  "method3 error errorBody =
     (if truthy_str errorBody then errorBody
      else if truthy_str (err_message error)
              \<and> err_message error \<noteq> Some ''Edge Function returned a non-2xx status code''
      then err_message error
      else errorBody)"

definition method4 :: "invoke_error \<Rightarrow> string option \<Rightarrow> string option" where
  "method4 error errorBody =
     (if truthy_str errorBody then errorBody
      else case err_context error of
        None \<Rightarrow> errorBody
      | Some c \<Rightarrow>
          (case ctx_body c of
             None \<Rightarrow> errorBody
           | Some (BodyString s) \<Rightarrow> if s \<noteq> [] then Some s else errorBody
           | Some (BodyBlob b) \<Rightarrow>
               (case blob_text b of Inl e \<Rightarrow> errorBody | Inr bodyText \<Rightarrow> Some bodyText)
           | Some BodyOther \<Rightarrow> errorBody))"

definition extractErrorBody :: "invoke_error \<Rightarrow> string option" where
  "extractErrorBody error = method4 error (method3 error (method2 error (method1 error None)))"

text \<open>
  The table of lines 210-228, on the lower-cased \<^verbatim>\<open>error\<close> text of the body: the first
  matching row gives the code.
\<close>

definition classifyErrorMsg :: "string \<Rightarrow> string" where
  "classifyErrorMsg errorMsg =
     (if str_includes errorMsg ''openai api key'' \<or> str_includes errorMsg ''api key is not configured''
      then ''AI_NOT_CONFIGURED''
      else if str_includes errorMsg ''invalid'' \<or> str_includes errorMsg ''expired''
      then ''AI_AUTH_FAILED''
      else if str_includes errorMsg ''rate limit'' \<or> str_includes errorMsg ''quota''
      then ''AI_RATE_LIMIT''
      else if str_includes errorMsg ''temporarily unavailable'' \<or> str_includes errorMsg ''service''
      then ''AI_SERVICE_UNAVAILABLE''
      else if str_includes errorMsg ''failed to analyze''
      then ''AI_ANALYSIS_FAILED''
      else ''AI_ERROR'')"

text \<open>\<^verbatim>\<open>errorJson.error.toLowerCase()\<close>: a TypeError unless the value is a string.\<close>

definition toLowerCase_of :: "jsval \<Rightarrow> exn + string" where
  "toLowerCase_of v = (case v of JStr s \<Rightarrow> Inr (toLowerCase s) | _ \<Rightarrow> Inl TypeError)"

definition parseJSON :: "platform \<Rightarrow> string \<Rightarrow> exn + jsval" where
  "parseJSON P s = (case JSON_parse P s of None \<Rightarrow> Inl SyntaxError | Some v \<Rightarrow> Inr v)"

text \<open>
  Lines 185-236. The \<^verbatim>\<open>try\<close> block either returns from \<^verbatim>\<open>analyzeProduct\<close> with a
  synthesized result (\<^term>\<open>Inl\<close>) or falls through with an error code (\<^term>\<open>Inr\<close>).
  Everything that can throw in it (the parse, the read of a property of \<^verbatim>\<open>null\<close>,
  \<^verbatim>\<open>toLowerCase\<close> of a value that is no string) comes before the assignments to
  \<^verbatim>\<open>errorCode\<close>, so the \<^verbatim>\<open>catch\<close> leaves the code it found on entry.
\<close>

definition manualEntryResult :: "platform \<Rightarrow> jsval \<Rightarrow> exn + ProductAnalysisResult" where
  "manualEntryResult P errorJson =
     bind (getProp errorJson ''productName'') (\<lambda>productName.
     bind (getProp errorJson ''category'') (\<lambda>cat.
     bind (getProp errorJson ''expiryDate'') (\<lambda>expiry.
     bind (calculateShelfLifeDays P expiry) (\<lambda>days.
     bind (getProp errorJson ''confidenceScore'') (\<lambda>score.
       Inr \<lparr> name = js_or productName (JStr ''Unknown Product''),
             category = js_or cat (JStr ''General''),
             shelfLifeDays = days,
             confidenceScore = js_or score (JNum 0),
             expiryDate = expiry,
             manualEntryRequired = JBool True \<rparr>)))))"

definition classifyBody ::
  "platform \<Rightarrow> string option \<Rightarrow> string \<Rightarrow> exn + (ProductAnalysisResult + string)" where
  "classifyBody P errorBody errorCode =
     (if truthy_str errorBody
      then try_catch
        (bind (parseJSON P (or_empty errorBody)) (\<lambda>errorJson.
         bind (getProp errorJson ''manualEntryRequired'') (\<lambda>flag.
           if flag = JBool True
           then bind (manualEntryResult P errorJson) (\<lambda>r. Inr (Inl r))
           else bind (getProp errorJson ''error'') (\<lambda>err.
             if truthy err
             then bind (toLowerCase_of err) (\<lambda>errorMsg. Inr (Inr (classifyErrorMsg errorMsg)))
             else Inr (Inr errorCode)))))
        (\<lambda>e. Inr (Inr errorCode))
      else Inr (Inr errorCode))"

text \<open>Lines 238-251: the HTTP status overrides the code found in the body.\<close>

definition applyStatus :: "int option \<Rightarrow> string option \<Rightarrow> string \<Rightarrow> string" where
  "applyStatus status errorBody errorCode =
     (if status = Some 401 then ''AUTH_FAILED''
      else if status = Some 500 \<and> \<not> truthy_str errorBody then ''SERVER_ERROR''
      else if status = Some 400 then ''INVALID_REQUEST''
      else if status = Some 503 \<or> status = Some 502 then ''SERVICE_UNAVAILABLE''
      else errorCode)"

text \<open>\<^verbatim>\<open>errorCode || 'EDGE_FUNCTION_ERROR'\<close>.\<close>

definition code_or_default :: "string \<Rightarrow> string" where
  "code_or_default errorCode = (if errorCode \<noteq> [] then errorCode else ''EDGE_FUNCTION_ERROR'')"

definition handleInvokeError :: "platform \<Rightarrow> invoke_error \<Rightarrow> exn + ProductAnalysisResult" where
  "handleInvokeError P error =
     (let errorBody = extractErrorBody error;
          status = errorStatus error
      in bind (JSON_stringify error) (\<lambda>logged.
         bind (classifyBody P errorBody ''UNKNOWN_ERROR'') (\<lambda>r.
           case r of
             Inl result \<Rightarrow> Inr result
           | Inr errorCode \<Rightarrow>
               Inl (AIAnalysisError (code_or_default (applyStatus status errorBody errorCode))))))"

section \<open>analyzeProduct: a resolved invocation (lines 280-324)\<close>

definition interpretData :: "platform \<Rightarrow> jsval \<Rightarrow> exn + ProductAnalysisResult" where
  "interpretData P data =
     (if \<not> truthy data then Inl (AIAnalysisError ''NO_RESPONSE'')
      else bind (getProp data ''error'') (\<lambda>err.
        if truthy err then Inl (AIAnalysisError ''AI_SERVICE_ERROR'')
        else
          bind (getProp data ''productName'') (\<lambda>productName.
          bind (getProp data ''name'') (\<lambda>nm.
          bind (getProp data ''category'') (\<lambda>cat.
          bind (getProp data ''expiryDate'') (\<lambda>expiry.
          bind (calculateShelfLifeDays P expiry) (\<lambda>days.
          bind (getProp data ''confidenceScore'') (\<lambda>score.
          bind (getProp data ''manualEntryRequired'') (\<lambda>flag.
            Inr \<lparr> name = js_or productName (js_or nm (JStr ''Unknown Product'')),
                  category = js_or cat (JStr ''General''),
                  shelfLifeDays = days,
                  confidenceScore = js_or score (JNum 0),
                  expiryDate = expiry,
                  manualEntryRequired = js_or flag (JBool False) \<rparr>)))))))))"

section \<open>analyzeProduct (lines 50-339)\<close>

text \<open>Lines 80-85, with \<^verbatim>\<open>process.env.X || ''\<close>.\<close>

definition supabaseUrl :: "config \<Rightarrow> string" where
  "supabaseUrl cfg = or_empty (EXPO_PUBLIC_SUPABASE_URL cfg)"

definition supabaseKey :: "config \<Rightarrow> string" where
  "supabaseKey cfg = or_empty (EXPO_PUBLIC_SUPABASE_ANON_KEY cfg)"

definition urlIsPlaceholder :: "config \<Rightarrow> bool" where
  "urlIsPlaceholder cfg =
     (str_includes (supabaseUrl cfg) ''placeholder'' \<or> str_includes (supabaseUrl cfg) ''your-project''
      \<or> length (supabaseUrl cfg) = 0)"

definition keyIsPlaceholder :: "config \<Rightarrow> bool" where
  "keyIsPlaceholder cfg =
     (str_includes (supabaseKey cfg) ''placeholder'' \<or> str_includes (supabaseKey cfg) ''your-anon''
      \<or> length (supabaseKey cfg) = 0)"

definition keyIsPublishable :: "config \<Rightarrow> bool" where
  "keyIsPublishable cfg = startsWith (supabaseKey cfg) ''sb_publishable_''"

definition keyIsJWT :: "config \<Rightarrow> bool" where
  "keyIsJWT cfg = startsWith (supabaseKey cfg) ''eyJ''"

text \<open>Line 54: \<^verbatim>\<open>options.barcode || options.code\<close>.\<close>

definition codeToAnalyze :: "AnalyzeProductOptions \<Rightarrow> string option" where
  "codeToAnalyze options = or_str (barcode options) (code options)"

text \<open>Lines 124-127: the body of the request.\<close>

definition requestBody :: "AnalyzeProductOptions \<Rightarrow> invoke_body" where
  "requestBody options =
     \<lparr> body_code = or_empty (codeToAnalyze options), body_imageUri = imageUri options \<rparr>"

text \<open>
  Lines 70-324, the body of the outer \<^verbatim>\<open>try\<close>: what it returns or throws, and the
  bodies the remote endpoint was invoked with, in order.
\<close>

definition tryBody ::
  "platform \<Rightarrow> config \<Rightarrow> (invoke_body \<Rightarrow> invoke_outcome) \<Rightarrow> AnalyzeProductOptions
     \<Rightarrow> (exn + ProductAnalysisResult) \<times> invoke_body list" where
  "tryBody P cfg invoke options =
     (if \<not> isSupabaseConfigured cfg then (Inl (AIAnalysisError ''NOT_CONFIGURED''), [])
      else if urlIsPlaceholder cfg \<or> keyIsPlaceholder cfg
      then (Inl (AIAnalysisError ''PLACEHOLDER_CREDENTIALS''), [])
      else if keyIsPublishable cfg \<and> \<not> keyIsJWT cfg
      then (Inl (AIAnalysisError ''WRONG_KEY_TYPE''), [])
      else
        let body = requestBody options
        in (case invoke body of
              Rejected \<Rightarrow> Inl OtherError
            | Resolved data (Some error) \<Rightarrow> handleInvokeError P error
            | Resolved data None \<Rightarrow> interpretData P data,
            [body]))"

text \<open>Lines 325-338: an \<^verbatim>\<open>AIAnalysisError\<close> is thrown again, anything else is wrapped.\<close>

definition rethrow :: "exn \<Rightarrow> exn" where
  "rethrow e = (case e of AIAnalysisError c \<Rightarrow> AIAnalysisError c | _ \<Rightarrow> AIAnalysisError ''UNKNOWN_ERROR'')"

definition analyzeProduct ::
  "platform \<Rightarrow> config \<Rightarrow> (invoke_body \<Rightarrow> invoke_outcome) \<Rightarrow> AnalyzeProductOptions
     \<Rightarrow> (exn + ProductAnalysisResult) \<times> invoke_body list" where
  "analyzeProduct P cfg invoke options =
     (if \<not> truthy_str (codeToAnalyze options) \<and> \<not> truthy_str (imageUri options)
      then (Inl (AIAnalysisError ''MISSING_INPUT''), [])
      else case tryBody P cfg invoke options of
             (Inl e, calls) \<Rightarrow> (Inl (rethrow e), calls)
           | (Inr result, calls) \<Rightarrow> (Inr result, calls))"

section \<open>Manual entry: handleSubmit (ManualEntryScreen, lines 34-160)\<close>

text \<open>
  \<^verbatim>\<open>String.prototype.trim\<close> removes white space and line terminators at both ends; below
  256 these are the code units 9-13, 32 and 160.
\<close>

definition is_space :: "char \<Rightarrow> bool" where
  "is_space c = ((of_char c :: nat) \<in> {9, 10, 11, 12, 13, 32, 160})"

definition trim :: "string \<Rightarrow> string" where
  "trim s = rev (dropWhile is_space (rev (dropWhile is_space s)))"

text \<open>
  The decimal digits of a number, as a template literal prints an integer day count
  (all digits, since a day count is far below \<open>10\<^sup>2\<^sup>1\<close>) and \<^verbatim>\<open>NaN\<close>.
\<close>

fun digits :: "nat \<Rightarrow> string" where
  "digits n = (if n < 10 then [char_of (48 + n)] else digits (n div 10) @ [char_of (48 + n mod 10)])"

declare digits.simps [simp del]

text \<open>Reading a decimal numeral back, to state that \<^term>\<open>digits\<close> prints the number.\<close>

definition decimal_value :: "string \<Rightarrow> nat" where
  "decimal_value s = foldl (\<lambda>acc c. 10 * acc + (of_char c - 48)) 0 s"

definition toString :: "daycount \<Rightarrow> string" where
  "toString d =
     (case d of
        NaN \<Rightarrow> ''NaN''
      | Days i \<Rightarrow> if i < 0 then ''-'' @ digits (nat (- i)) else digits (nat i))"

text \<open>Comparisons with a number literal: every comparison with \<^verbatim>\<open>NaN\<close> is false.\<close>

definition less_than :: "daycount \<Rightarrow> int \<Rightarrow> bool" where
  "less_than d k = (case d of NaN \<Rightarrow> False | Days i \<Rightarrow> i < k)"

definition strict_equals :: "daycount \<Rightarrow> int \<Rightarrow> bool" where
  "strict_equals d k = (case d of NaN \<Rightarrow> False | Days i \<Rightarrow> i = k)"

text \<open>Lines 53-61: the status label of a day count.\<close>

definition status :: "daycount \<Rightarrow> string" where
  "status daysLeft =
     (if less_than daysLeft 0 then ''EXPIRED''
      else if strict_equals daysLeft 0 then ''EXPIRES TODAY''
      else if strict_equals daysLeft 1 then ''Expires tomorrow''
      else ''Expires in '' @ toString daysLeft @ '' days'')"

text \<open>The component's state, and the record handed to \<^verbatim>\<open>addInventoryItem\<close>.\<close>

record form =
  form_productName :: string
  form_category :: string
  form_barcode :: string
  form_expiryDate :: string
  form_saving :: bool

record inventory_item =
  item_barcode :: string
  product_name :: string
  item_category :: string
  expiry_date :: string
  ai_confidence :: rat

text \<open>
  What one run of the handler leaves behind: the state after its last setter, the titles
  of the alerts it raised and the records it handed to the inventory store, in order.
\<close>

record submission =
  form_after :: form
  alerts :: "string list"
  store_calls :: "inventory_item list"

text \<open>
  Lines 47-66, the \<^verbatim>\<open>try\<close> block: the day count, its label and the saved values.
  \<^verbatim>\<open>new Date(expiryDate)\<close> yields a \<^verbatim>\<open>Date\<close> for every string, an invalid one when the
  string does not parse.
\<close>

definition computeDaysLeft ::
  "platform \<Rightarrow> form \<Rightarrow> exn + (string \<times> string \<times> string \<times> daycount \<times> string)" where
  "computeDaysLeft P f =
     (let expiryDateObj = JDate (Date_parse P (form_expiryDate f))
      in bind (getTime expiryDateObj) (\<lambda>t.
           let daysLeft = diffDays t (Date_now P);
               savedName = trim (form_productName f);
               savedCategory = (if trim (form_category f) \<noteq> [] then trim (form_category f)
                                else ''General'');
               savedExpiryDate = form_expiryDate f
           in Inr (savedName, savedCategory, savedExpiryDate, daysLeft, status daysLeft)))"

text \<open>
  \<^verbatim>\<open>handleSubmit\<close>. \<^verbatim>\<open>addInventoryItem\<close> is the inventory-store collaborator: it
  resolves (\<^term>\<open>True\<close>) or throws. The buttons of the final alerts are later events
  and not part of the run.
\<close>

definition handleSubmit ::
  "platform \<Rightarrow> (inventory_item \<Rightarrow> bool) \<Rightarrow> string option \<Rightarrow> form \<Rightarrow> submission" where
  "handleSubmit P addInventoryItem initialBarcode f =
     (if trim (form_productName f) = [] \<or> trim (form_expiryDate f) = []
      then \<lparr> form_after = f, alerts = [''Missing Information''], store_calls = [] \<rparr>
      else case computeDaysLeft P f of
        Inl e \<Rightarrow> \<lparr> form_after = f, alerts = [''Invalid Date''], store_calls = [] \<rparr>
      | Inr (savedName, savedCategory, savedExpiryDate, daysLeft, st) \<Rightarrow>
          let item = \<lparr> item_barcode = (if trim (form_barcode f) \<noteq> [] then trim (form_barcode f)
                                        else ''Manual Entry''),
                       product_name = savedName,
                       item_category = savedCategory,
                       expiry_date = savedExpiryDate,
                       ai_confidence = 1 \<rparr>
          in if addInventoryItem item
             then \<lparr> form_after = \<lparr> form_productName = [], form_category = [],
                                    form_barcode = or_empty initialBarcode,
                                    form_expiryDate = [], form_saving = False \<rparr>,
                    alerts = [''Success''], store_calls = [item] \<rparr>
             else \<lparr> form_after = f \<lparr> form_saving := False \<rparr>,
                    alerts = [''Error''], store_calls = [item] \<rparr>)"

section \<open>Vocabulary of the statements\<close>

text \<open>
  The closed vocabulary of error codes that the specification lists (section 6), against
  which the codes thrown by the source are compared.
\<close>

definition error_vocabulary :: "string list" where
  "error_vocabulary =
     [''NOT_CONFIGURED'', ''PLACEHOLDER_CREDENTIALS'', ''WRONG_KEY_TYPE'', ''MISSING_INPUT'',
      ''AI_NOT_CONFIGURED'', ''AI_AUTH_FAILED'', ''AI_RATE_LIMIT'', ''AI_SERVICE_UNAVAILABLE'',
      ''AI_ANALYSIS_FAILED'', ''AI_ERROR'', ''AI_SERVICE_ERROR'', ''AUTH_FAILED'',
      ''SERVER_ERROR'', ''INVALID_REQUEST'', ''SERVICE_UNAVAILABLE'', ''NO_RESPONSE'',
      ''UNKNOWN_ERROR'']"

text \<open>
  A request passes the guard of line 56 when it carries a code or an image; a
  configuration passes the guards of lines 72-114 when none of them throws. Exactly then
  the remote endpoint is invoked.
\<close>

definition hasInput :: "AnalyzeProductOptions \<Rightarrow> bool" where
  "hasInput options = (truthy_str (codeToAnalyze options) \<or> truthy_str (imageUri options))"

definition configOK :: "config \<Rightarrow> bool" where
  "configOK cfg =
     (isSupabaseConfigured cfg \<and> \<not> urlIsPlaceholder cfg \<and> \<not> keyIsPlaceholder cfg
      \<and> \<not> (keyIsPublishable cfg \<and> \<not> keyIsJWT cfg))"

section \<open>Concrete inputs\<close>

text \<open>
  The inputs at which the theorems below are instantiated. The platform of the examples
  knows \<^verbatim>\<open>JSON.parse\<close> on four texts and \<^verbatim>\<open>new Date\<close> on one ISO date (midnight UTC
  of 31 December 2024); its clock stands at 01:00 UTC of 30 December 2024. Any other
  text is taken as malformed JSON, any other string as an invalid date.
\<close>

definition json_table :: "(string \<times> jsval) list" where
  "json_table =
     [(''{\"error\":\"rate limit exceeded\"}'',
         JObj [(''error'', JStr ''rate limit exceeded'')]),
      (''{\"error\":\"Invalid API key or rate limit exceeded\"}'',
         JObj [(''error'', JStr ''Invalid API key or rate limit exceeded'')]),
      (''{\"manualEntryRequired\":true,\"productName\":\"Organic Milk\"}'',
         JObj [(''manualEntryRequired'', JBool True), (''productName'', JStr ''Organic Milk'')]),
      (''{\"manualEntryRequired\":true,\"productName\":\"\"}'',
         JObj [(''manualEntryRequired'', JBool True), (''productName'', JStr [])])]"

definition example_Date_parse :: "string \<Rightarrow> int option" where
  "example_Date_parse s = (if s = ''2024-12-31'' then Some 1735603200000 else None)"

definition example_platform :: platform where
  "example_platform =
     \<lparr> JSON_parse = map_of json_table, Date_parse = example_Date_parse,
       Date_now = 1735520400000 \<rparr>"

definition valid_config :: config where
  "valid_config =
     \<lparr> isSupabaseConfigured = True,
       EXPO_PUBLIC_SUPABASE_URL = Some ''https://abcdefgh.supabase.co'',
       EXPO_PUBLIC_SUPABASE_ANON_KEY = Some ''eyJhbGciOiJIUzI1NiJ9.e30.c2ln'' \<rparr>"

definition publishable_config :: config where
  "publishable_config =
     \<lparr> isSupabaseConfigured = True,
       EXPO_PUBLIC_SUPABASE_URL = Some ''https://abcdefgh.supabase.co'',
       EXPO_PUBLIC_SUPABASE_ANON_KEY = Some ''sb_publishable_abc123'' \<rparr>"

text \<open>The same credentials, rejected by \<^verbatim>\<open>isSupabaseConfigured()\<close>.\<close>

definition unconfigured_publishable_config :: config where
  "unconfigured_publishable_config = publishable_config \<lparr> isSupabaseConfigured := False \<rparr>"

definition barcode_request :: AnalyzeProductOptions where
  "barcode_request = \<lparr> barcode = Some ''123456'', imageUri = None, code = None \<rparr>"

definition both_codes_request :: AnalyzeProductOptions where
  "both_codes_request = \<lparr> barcode = Some ''123456'', imageUri = None, code = Some ''LOT-7'' \<rparr>"

definition code_only_request :: AnalyzeProductOptions where
  "code_only_request = \<lparr> barcode = Some [], imageUri = None, code = Some ''LOT-7'' \<rparr>"

definition empty_request :: AnalyzeProductOptions where
  "empty_request = \<lparr> barcode = None, imageUri = None, code = Some [] \<rparr>"

text \<open>An endpoint that answers every request alike.\<close>

definition always :: "invoke_outcome \<Rightarrow> invoke_body \<Rightarrow> invoke_outcome" where
  "always outcome body = outcome"

text \<open>
  A failed invocation with the given HTTP status and response body, whose error object
  can be serialised; and the same with an error object that cannot.
\<close>

definition http_error :: "int \<Rightarrow> string \<Rightarrow> invoke_error" where
  "http_error st body =
     \<lparr> err_context = Some \<lparr> ctx_status = Some st, ctx_bodyBlob = Some (Blob (Some body)),
                            ctx_bodyUsed = False, ctx_bodyInit = None, ctx_body = None \<rparr>,
       err_status = None,
       err_message = Some ''Edge Function returned a non-2xx status code'',
       err_serialisable = True \<rparr>"

definition unserialisable_http_error :: "int \<Rightarrow> string \<Rightarrow> invoke_error" where
  "unserialisable_http_error st body = (http_error st body) \<lparr> err_serialisable := False \<rparr>"

text \<open>An inventory store whose write succeeds.\<close>

definition store_accepts :: "inventory_item \<Rightarrow> bool" where
  "store_accepts item = True"

definition milk_form :: form where
  "milk_form =
     \<lparr> form_productName = ''Milk'', form_category = [], form_barcode = [],
       form_expiryDate = ''not-a-date'', form_saving = False \<rparr>"

section \<open>Shelf life: theorems\<close>

lemma calculateShelfLifeDays_returns: "\<exists>d. calculateShelfLifeDays P v = Inr d"
  by (cases v) (simp_all add: calculateShelfLifeDays_def try_catch_def bind_def getTime_def)

lemma diffDays_Some: "diffDays (Some t) now = Days (- ((now - t) div ms_per_day))"
  by (simp add: diffDays_def ceiling_divide_eq_div flip: of_int_diff)

text \<open>
  Claim C10. \<^verbatim>\<open>calculateShelfLifeDays\<close> returns a number on every argument and never
  throws; an absent argument gives exactly 7. A non-empty string gives the day count of
  its parsed date (\<^verbatim>\<open>NaN\<close> when the string is no date), a \<^verbatim>\<open>Date\<close> that of its time
  value.
\<close>

theorem calculateShelfLifeDays_total:
  "(\<exists>d. calculateShelfLifeDays P v = Inr d)
   \<and> calculateShelfLifeDays P JUndefined = Inr (Days 7)
   \<and> calculateShelfLifeDays P (JStr s)
       = Inr (if s = [] then Days 7 else diffDays (Date_parse P s) (Date_now P))
   \<and> calculateShelfLifeDays P (JDate t) = Inr (diffDays t (Date_now P))"
proof -
  have total: "\<exists>d. calculateShelfLifeDays P v = Inr d"
  proof (cases "truthy v")
    case False
    then show ?thesis by (simp add: calculateShelfLifeDays_def)
  next
    case True
    then show ?thesis
      by (cases "getTime (case v of JStr s \<Rightarrow> JDate (Date_parse P s) | _ \<Rightarrow> v)")
        (simp_all add: calculateShelfLifeDays_def try_catch_def bind_def)
  qed
  have absent: "calculateShelfLifeDays P JUndefined = Inr (Days 7)"
    by (simp add: calculateShelfLifeDays_def)
  have str: "calculateShelfLifeDays P (JStr s)
       = Inr (if s = [] then Days 7 else diffDays (Date_parse P s) (Date_now P))"
    by (simp add: calculateShelfLifeDays_def try_catch_def bind_def getTime_def)
  have date: "calculateShelfLifeDays P (JDate t) = Inr (diffDays t (Date_now P))"
    by (simp add: calculateShelfLifeDays_def try_catch_def bind_def getTime_def)
  from total absent str date show ?thesis by blast
qed

lemma calculateShelfLifeDays_examples:
  "calculateShelfLifeDays example_platform (JStr ''2024-12-31'') = Inr (Days 1)"
  "calculateShelfLifeDays example_platform (JStr ''not-a-date'') = Inr NaN"
  "calculateShelfLifeDays example_platform (JNum 5) = Inr (Days 7)"
  by code_simp+

section \<open>Status label: theorems\<close>

lemma decimal_value_snoc:
  "decimal_value (s @ [c]) = 10 * decimal_value s + (of_char c - 48)"
  by (simp add: decimal_value_def)

lemma digits_decimal_value: "decimal_value (digits n) = n"
proof (induction n rule: digits.induct)
  case (1 n)
  show ?case
  proof (cases "n < 10")
    case True
    then show ?thesis
      by (subst digits.simps) (simp add: decimal_value_def)
  next
    case False
    then have "decimal_value (digits (n div 10)) = n div 10"
      using "1.IH" by simp
    moreover have "(of_char (char_of (48 + n mod 10) :: char) :: nat) = 48 + n mod 10"
      by (simp add: of_char_of)
    ultimately show ?thesis
      using False by (subst digits.simps) (simp add: decimal_value_snoc)
  qed
qed

text \<open>
  Claim C7. For an integer day count \<open>d\<close> the label is "EXPIRED" when \<open>d < 0\<close>,
  "EXPIRES TODAY" when \<open>d = 0\<close>, "Expires tomorrow" when \<open>d = 1\<close>, and
  "Expires in N days" when \<open>d > 1\<close>, where N is the decimal numeral of \<open>d\<close>.
\<close>

theorem status_label:
  "(d < 0 \<longrightarrow> status (Days d) = ''EXPIRED'')
   \<and> (d = 0 \<longrightarrow> status (Days d) = ''EXPIRES TODAY'')
   \<and> (d = 1 \<longrightarrow> status (Days d) = ''Expires tomorrow'')
   \<and> (d > 1 \<longrightarrow> status (Days d) = ''Expires in '' @ digits (nat d) @ '' days''
               \<and> decimal_value (digits (nat d)) = nat d)"
proof -
  have neg: "d < 0 \<longrightarrow> status (Days d) = ''EXPIRED''"
    by (simp add: status_def less_than_def)
  have zero: "d = 0 \<longrightarrow> status (Days d) = ''EXPIRES TODAY''"
    by (simp add: status_def less_than_def strict_equals_def)
  have one: "d = 1 \<longrightarrow> status (Days d) = ''Expires tomorrow''"
    by (simp add: status_def less_than_def strict_equals_def)
  have more: "d > 1 \<longrightarrow> status (Days d) = ''Expires in '' @ digits (nat d) @ '' days''"
    by (simp add: status_def less_than_def strict_equals_def toString_def)
  from neg zero one more digits_decimal_value show ?thesis by blast
qed

theorem status_label_witness:
  "status (Days (- 3)) = ''EXPIRED''
   \<and> status (Days 0) = ''EXPIRES TODAY''
   \<and> status (Days 1) = ''Expires tomorrow''
   \<and> status (Days 12) = ''Expires in 12 days''"
proof -
  have "digits (nat 12) = ''12''" by code_simp
  then show ?thesis
    using status_label [of "- 3"] status_label [of 0] status_label [of 1] status_label [of 12]
    by simp
qed

section \<open>analyzeProduct: the guards and the invocation\<close>

text \<open>
  When the request carries input and the configuration passes, the endpoint is invoked
  once, with \<^term>\<open>requestBody options\<close>, and the outcome is read off the answer;
  otherwise it is not invoked at all.
\<close>

lemma analyzeProduct_invokes:
  assumes "hasInput options" and "configOK cfg"
  shows "analyzeProduct P cfg invoke options =
     (case invoke (requestBody options) of
        Rejected \<Rightarrow> Inl (AIAnalysisError ''UNKNOWN_ERROR'')
      | Resolved data (Some error) \<Rightarrow> map_sum rethrow id (handleInvokeError P error)
      | Resolved data None \<Rightarrow> map_sum rethrow id (interpretData P data),
      [requestBody options])"
  using assms
  by (auto simp: analyzeProduct_def tryBody_def hasInput_def configOK_def rethrow_def Let_def
      split: invoke_outcome.splits option.splits sum.splits)

lemma analyzeProduct_no_call:
  assumes "\<not> (hasInput options \<and> configOK cfg)"
  shows "snd (analyzeProduct P cfg invoke options) = []"
  using assms
  by (auto simp: analyzeProduct_def tryBody_def hasInput_def configOK_def)

lemma analyzeProduct_calls:
  "snd (analyzeProduct P cfg invoke options) =
     (if hasInput options \<and> configOK cfg then [requestBody options] else [])"
  using analyzeProduct_invokes [of options cfg P invoke]
    analyzeProduct_no_call [of options cfg P invoke]
  by (cases "hasInput options \<and> configOK cfg") simp_all

text \<open>
  Claim C3. A request whose barcode, code and image are all absent or empty is rejected
  with MISSING_INPUT, and the remote endpoint is not invoked.
\<close>

theorem analyzeProduct_missing_input:
  assumes "\<not> truthy_str (barcode options)" and "\<not> truthy_str (code options)"
    and "\<not> truthy_str (imageUri options)"
  shows "analyzeProduct P cfg invoke options = (Inl (AIAnalysisError ''MISSING_INPUT''), [])"
proof -
  have "\<not> truthy_str (codeToAnalyze options)"
    using assms(1,2) by (simp add: codeToAnalyze_def or_str_def)
  with assms(3) show ?thesis by (simp add: analyzeProduct_def)
qed

theorem analyzeProduct_missing_input_witness:
  "analyzeProduct example_platform valid_config (always Rejected) empty_request
     = (Inl (AIAnalysisError ''MISSING_INPUT''), [])"
proof (rule analyzeProduct_missing_input)
  show "\<not> truthy_str (barcode empty_request)" by code_simp
  show "\<not> truthy_str (code empty_request)" by code_simp
  show "\<not> truthy_str (imageUri empty_request)" by code_simp
qed

text \<open>
  Claim C4, as amended. The claim gives WRONG_KEY_TYPE to every configuration whose key
  starts with "sb_publishable_" and not with "eyJ" and which the placeholder check lets
  through. Two guards of the source stand before the key checks and throw first: the
  request must carry a code or an image (line 56, MISSING_INPUT), and
  \<^verbatim>\<open>isSupabaseConfigured()\<close> must hold (line 72, NOT_CONFIGURED). What holds: with such a
  key \<^verbatim>\<open>analyzeProduct\<close> never invokes the remote endpoint, whatever the request and
  whatever \<^verbatim>\<open>isSupabaseConfigured()\<close> says; and it throws WRONG_KEY_TYPE when the request
  carries a code or an image and \<^verbatim>\<open>isSupabaseConfigured()\<close> holds.
\<close>

theorem analyzeProduct_wrong_key_type:
  assumes "\<not> urlIsPlaceholder cfg" and "\<not> keyIsPlaceholder cfg"
    and "startsWith (supabaseKey cfg) ''sb_publishable_''"
    and "\<not> startsWith (supabaseKey cfg) ''eyJ''"
  shows "snd (analyzeProduct P cfg invoke options) = []
    \<and> (hasInput options \<and> isSupabaseConfigured cfg \<longrightarrow>
         fst (analyzeProduct P cfg invoke options) = Inl (AIAnalysisError ''WRONG_KEY_TYPE''))"
proof -
  have key: "keyIsPublishable cfg \<and> \<not> keyIsJWT cfg"
    using assms(3,4) by (simp add: keyIsPublishable_def keyIsJWT_def)
  then have "\<not> configOK cfg" by (simp add: configOK_def)
  then have "snd (analyzeProduct P cfg invoke options) = []"
    by (simp add: analyzeProduct_no_call)
  moreover have "fst (analyzeProduct P cfg invoke options) = Inl (AIAnalysisError ''WRONG_KEY_TYPE'')"
    if "hasInput options" and "isSupabaseConfigured cfg"
    using that key assms(1,2)
    by (simp add: analyzeProduct_def tryBody_def hasInput_def rethrow_def)
  ultimately show ?thesis by blast
qed

theorem analyzeProduct_wrong_key_type_witness:
  "analyzeProduct example_platform publishable_config (always Rejected) barcode_request
     = (Inl (AIAnalysisError ''WRONG_KEY_TYPE''), [])"
proof -
  have "\<not> urlIsPlaceholder publishable_config" by code_simp
  moreover have "\<not> keyIsPlaceholder publishable_config" by code_simp
  moreover have "startsWith (supabaseKey publishable_config) ''sb_publishable_''" by code_simp
  moreover have "\<not> startsWith (supabaseKey publishable_config) ''eyJ''" by code_simp
  moreover have "hasInput barcode_request" by code_simp
  moreover have "isSupabaseConfigured publishable_config" by code_simp
  ultimately show ?thesis
    using analyzeProduct_wrong_key_type
      [of publishable_config example_platform "always Rejected" barcode_request]
    by (simp add: prod_eq_iff)
qed

text \<open>
  Claim C4 as stated fails. The publishable key of the example passes the placeholder
  check, starts with "sb_publishable_" and not with "eyJ"; yet a request without code
  and image is thrown as MISSING_INPUT, and a request with a barcode under a
  configuration that \<^verbatim>\<open>isSupabaseConfigured()\<close> rejects as NOT_CONFIGURED.
\<close>

theorem analyzeProduct_wrong_key_type_counterexample:
  "\<not> urlIsPlaceholder publishable_config
   \<and> \<not> keyIsPlaceholder publishable_config
   \<and> startsWith (supabaseKey publishable_config) ''sb_publishable_''
   \<and> \<not> startsWith (supabaseKey publishable_config) ''eyJ''
   \<and> analyzeProduct example_platform publishable_config (always Rejected) empty_request
       = (Inl (AIAnalysisError ''MISSING_INPUT''), [])
   \<and> \<not> urlIsPlaceholder unconfigured_publishable_config
   \<and> \<not> keyIsPlaceholder unconfigured_publishable_config
   \<and> startsWith (supabaseKey unconfigured_publishable_config) ''sb_publishable_''
   \<and> \<not> startsWith (supabaseKey unconfigured_publishable_config) ''eyJ''
   \<and> analyzeProduct example_platform unconfigured_publishable_config (always Rejected)
         barcode_request
       = (Inl (AIAnalysisError ''NOT_CONFIGURED''), [])"
  by code_simp

lemma requestBody_barcode:
  assumes "barcode options = Some b" and "b \<noteq> []"
  shows "requestBody options = \<lparr> body_code = b, body_imageUri = imageUri options \<rparr>"
    and "hasInput options"
  using assms
  by (simp_all add: requestBody_def hasInput_def codeToAnalyze_def or_str_def truthy_str_def
      or_empty_def)

lemma requestBody_code:
  assumes "\<not> truthy_str (barcode options)"
  shows "requestBody options =
     \<lparr> body_code = or_empty (code options), body_imageUri = imageUri options \<rparr>"
  using assms by (simp add: requestBody_def codeToAnalyze_def or_str_def)

text \<open>
  Claim C9. When the request supplies a non-empty barcode, every invocation of the
  remote endpoint carries the barcode, whatever the generic code is: the endpoint is
  invoked once with it when the configuration passes, and not at all otherwise. The
  generic code (or the empty string) is sent only when the barcode is absent or empty.
\<close>

theorem analyzeProduct_barcode_first:
  "(barcode options = Some b \<and> b \<noteq> [] \<longrightarrow>
      snd (analyzeProduct P cfg invoke options) =
        (if configOK cfg then [\<lparr> body_code = b, body_imageUri = imageUri options \<rparr>] else []))
   \<and> (\<not> truthy_str (barcode options) \<longrightarrow>
      snd (analyzeProduct P cfg invoke options) =
        (if hasInput options \<and> configOK cfg
         then [\<lparr> body_code = or_empty (code options), body_imageUri = imageUri options \<rparr>]
         else []))"
  using requestBody_barcode [of options b] requestBody_code [of options]
  by (simp add: analyzeProduct_calls)

theorem analyzeProduct_barcode_first_witness:
  "snd (analyzeProduct example_platform valid_config (always Rejected) both_codes_request)
     = [\<lparr> body_code = ''123456'', body_imageUri = None \<rparr>]
   \<and> snd (analyzeProduct example_platform valid_config (always Rejected) code_only_request)
     = [\<lparr> body_code = ''LOT-7'', body_imageUri = None \<rparr>]"
proof -
  have "barcode both_codes_request = Some ''123456'' \<and> ''123456'' \<noteq> []"
    by (simp add: both_codes_request_def)
  moreover have "configOK valid_config" by code_simp
  moreover have "imageUri both_codes_request = None" by (simp add: both_codes_request_def)
  moreover have "\<not> truthy_str (barcode code_only_request)" by code_simp
  moreover have "hasInput code_only_request" by code_simp
  moreover have "or_empty (code code_only_request) = ''LOT-7''" by code_simp
  moreover have "imageUri code_only_request = None" by (simp add: code_only_request_def)
  ultimately show ?thesis
    using analyzeProduct_barcode_first
        [of both_codes_request "''123456''" example_platform valid_config "always Rejected"]
      analyzeProduct_barcode_first
        [of code_only_request "''123456''" example_platform valid_config "always Rejected"]
    by simp
qed

section \<open>analyzeProduct: a resolved invocation, theorems\<close>

lemma interpretData_object:
  assumes "\<not> truthy (field kvs ''error'')"
    and "calculateShelfLifeDays P (field kvs ''expiryDate'') = Inr d"
  shows "interpretData P (JObj kvs) =
     Inr \<lparr> name = js_or (field kvs ''productName'')
                     (js_or (field kvs ''name'') (JStr ''Unknown Product'')),
           category = js_or (field kvs ''category'') (JStr ''General''),
           shelfLifeDays = d,
           confidenceScore = js_or (field kvs ''confidenceScore'') (JNum 0),
           expiryDate = field kvs ''expiryDate'',
           manualEntryRequired = js_or (field kvs ''manualEntryRequired'') (JBool False) \<rparr>"
  using assms by (simp add: interpretData_def bind_def)

text \<open>
  Claim C1. When the invocation succeeds with a payload whose \<^verbatim>\<open>error\<close> is absent (or
  falsy) and whose \<^verbatim>\<open>manualEntryRequired\<close> is \<^verbatim>\<open>true\<close>, \<^verbatim>\<open>analyzeProduct\<close> returns a
  result and does not throw. The result has the flag set, takes its name from
  \<^verbatim>\<open>productName\<close>, else \<^verbatim>\<open>name\<close>, else "Unknown Product", its category from
  \<^verbatim>\<open>category\<close>, else "General", and its shelf life from \<^verbatim>\<open>calculateShelfLifeDays\<close> of
  the payload's \<^verbatim>\<open>expiryDate\<close>.
\<close>

theorem analyzeProduct_manual_entry_flag:
  assumes "hasInput options" and "configOK cfg"
    and "invoke (requestBody options) = Resolved (JObj kvs) None"
    and "\<not> truthy (field kvs ''error'')"
    and "field kvs ''manualEntryRequired'' = JBool True"
  shows "\<exists>d. calculateShelfLifeDays P (field kvs ''expiryDate'') = Inr d
     \<and> analyzeProduct P cfg invoke options =
       (Inr \<lparr> name = js_or (field kvs ''productName'')
                       (js_or (field kvs ''name'') (JStr ''Unknown Product'')),
              category = js_or (field kvs ''category'') (JStr ''General''),
              shelfLifeDays = d,
              confidenceScore = js_or (field kvs ''confidenceScore'') (JNum 0),
              expiryDate = field kvs ''expiryDate'',
              manualEntryRequired = JBool True \<rparr>,
        [requestBody options])"
proof -
  obtain d where d: "calculateShelfLifeDays P (field kvs ''expiryDate'') = Inr d"
    using calculateShelfLifeDays_returns by blast
  have "js_or (field kvs ''manualEntryRequired'') (JBool False) = JBool True"
    using assms(5) by (simp add: js_or_def)
  then have "interpretData P (JObj kvs) =
     Inr \<lparr> name = js_or (field kvs ''productName'')
                     (js_or (field kvs ''name'') (JStr ''Unknown Product'')),
           category = js_or (field kvs ''category'') (JStr ''General''),
           shelfLifeDays = d,
           confidenceScore = js_or (field kvs ''confidenceScore'') (JNum 0),
           expiryDate = field kvs ''expiryDate'',
           manualEntryRequired = JBool True \<rparr>"
    using interpretData_object [OF assms(4) d] by simp
  then show ?thesis
    using d analyzeProduct_invokes [OF assms(1,2), of P invoke] assms(3) by simp
qed

theorem analyzeProduct_manual_entry_flag_witness:
  "analyzeProduct example_platform valid_config
     (always (Resolved (JObj [(''manualEntryRequired'', JBool True),
                              (''expiryDate'', JStr ''2024-12-31'')]) None))
     barcode_request
   = (Inr \<lparr> name = JStr ''Unknown Product'', category = JStr ''General'',
            shelfLifeDays = Days 1, confidenceScore = JNum 0,
            expiryDate = JStr ''2024-12-31'', manualEntryRequired = JBool True \<rparr>,
      [\<lparr> body_code = ''123456'', body_imageUri = None \<rparr>])"
proof -
  let ?kvs = "[(''manualEntryRequired'', JBool True), (''expiryDate'', JStr ''2024-12-31'')]"
  have h1: "hasInput barcode_request" by code_simp
  have h2: "configOK valid_config" by code_simp
  have h3: "always (Resolved (JObj ?kvs) None) (requestBody barcode_request)
      = Resolved (JObj ?kvs) None"
    by (simp add: always_def)
  have h4: "\<not> truthy (field ?kvs ''error'')" by code_simp
  have h5: "field ?kvs ''manualEntryRequired'' = JBool True" by code_simp
  have days: "calculateShelfLifeDays example_platform (field ?kvs ''expiryDate'') = Inr (Days 1)"
    by code_simp
  have fields:
    "js_or (field ?kvs ''productName'') (js_or (field ?kvs ''name'') (JStr ''Unknown Product''))
       = JStr ''Unknown Product''"
    "js_or (field ?kvs ''category'') (JStr ''General'') = JStr ''General''"
    "js_or (field ?kvs ''confidenceScore'') (JNum 0) = JNum 0"
    "field ?kvs ''expiryDate'' = JStr ''2024-12-31''"
    "requestBody barcode_request = \<lparr> body_code = ''123456'', body_imageUri = None \<rparr>"
    by code_simp+
  from analyzeProduct_manual_entry_flag
    [where invoke = "always (Resolved (JObj ?kvs) None)" and P = example_platform,
      OF h1 h2 h3 h4 h5] days
  show ?thesis
    unfolding fields by auto
qed

text \<open>
  The scenario of the specification: an identified product comes back with its fields
  renamed, the shelf life derived from the date, and the flag off.
\<close>

lemma analyzeProduct_organic_milk:
  "analyzeProduct example_platform valid_config
     (always (Resolved (JObj [(''productName'', JStr ''Organic Milk''),
                              (''category'', JStr ''Dairy''),
                              (''expiryDate'', JStr ''2024-12-31''),
                              (''confidenceScore'', JNum (85 / 100))]) None))
     barcode_request
   = (Inr \<lparr> name = JStr ''Organic Milk'', category = JStr ''Dairy'',
            shelfLifeDays = Days 1, confidenceScore = JNum (85 / 100),
            expiryDate = JStr ''2024-12-31'', manualEntryRequired = JBool False \<rparr>,
      [\<lparr> body_code = ''123456'', body_imageUri = None \<rparr>])"
  by code_simp

section \<open>analyzeProduct: a failed invocation, theorems\<close>

lemma classifyBody_manual:
  assumes "body \<noteq> []" and "JSON_parse P body = Some (JObj kvs)"
    and "field kvs ''manualEntryRequired'' = JBool True"
    and "calculateShelfLifeDays P (field kvs ''expiryDate'') = Inr d"
  shows "classifyBody P (Some body) c =
     Inr (Inl \<lparr> name = js_or (field kvs ''productName'') (JStr ''Unknown Product''),
             category = js_or (field kvs ''category'') (JStr ''General''),
             shelfLifeDays = d,
             confidenceScore = js_or (field kvs ''confidenceScore'') (JNum 0),
             expiryDate = field kvs ''expiryDate'',
             manualEntryRequired = JBool True \<rparr>)"
  using assms
  by (simp add: classifyBody_def truthy_str_def or_empty_def parseJSON_def bind_def
      try_catch_def manualEntryResult_def)

text \<open>
  Claim C5, as amended. The claim lets \<^verbatim>\<open>analyzeProduct\<close> return for every failed
  invocation whose extracted body parses to an object with \<^verbatim>\<open>manualEntryRequired\<close> equal
  to \<^verbatim>\<open>true\<close>, and takes \<^verbatim>\<open>productName\<close>, \<^verbatim>\<open>category\<close> and \<^verbatim>\<open>confidenceScore\<close> from
  the body when present. The source reads the three fields with \<^verbatim>\<open>||\<close>, so a field
  that is present but falsy (an empty name) gives the default; and it serialises the
  error object on line 180 before it parses the body. What holds: when the error object
  can be serialised and the extracted body parses to an object whose
  \<^verbatim>\<open>manualEntryRequired\<close> is \<^verbatim>\<open>true\<close>, \<^verbatim>\<open>analyzeProduct\<close> does not throw: it returns a
  result with the flag set, whose name, category and confidence score are the body's
  \<^verbatim>\<open>productName\<close>, \<^verbatim>\<open>category\<close> and \<^verbatim>\<open>confidenceScore\<close> where these are truthy, and
  "Unknown Product", "General" and 0 otherwise.
\<close>

theorem analyzeProduct_error_body_manual_entry:
  assumes "hasInput options" and "configOK cfg"
    and "invoke (requestBody options) = Resolved data (Some error)"
    and "extractErrorBody error = Some body" and "body \<noteq> []"
    and "JSON_parse P body = Some (JObj kvs)"
    and "field kvs ''manualEntryRequired'' = JBool True"
    and "err_serialisable error"
  shows "\<exists>d. calculateShelfLifeDays P (field kvs ''expiryDate'') = Inr d
     \<and> analyzeProduct P cfg invoke options =
       (Inr \<lparr> name = js_or (field kvs ''productName'') (JStr ''Unknown Product''),
              category = js_or (field kvs ''category'') (JStr ''General''),
              shelfLifeDays = d,
              confidenceScore = js_or (field kvs ''confidenceScore'') (JNum 0),
              expiryDate = field kvs ''expiryDate'',
              manualEntryRequired = JBool True \<rparr>,
        [requestBody options])"
proof -
  obtain d where d: "calculateShelfLifeDays P (field kvs ''expiryDate'') = Inr d"
    using calculateShelfLifeDays_returns by blast
  have "handleInvokeError P error =
     Inr \<lparr> name = js_or (field kvs ''productName'') (JStr ''Unknown Product''),
           category = js_or (field kvs ''category'') (JStr ''General''),
           shelfLifeDays = d,
           confidenceScore = js_or (field kvs ''confidenceScore'') (JNum 0),
           expiryDate = field kvs ''expiryDate'',
           manualEntryRequired = JBool True \<rparr>"
    using classifyBody_manual [OF assms(5,6,7) d] assms(4,8)
    by (simp add: handleInvokeError_def JSON_stringify_def bind_def)
  then show ?thesis
    using d analyzeProduct_invokes [OF assms(1,2), of P invoke] assms(3) by simp
qed

theorem analyzeProduct_error_body_manual_entry_witness:
  "analyzeProduct example_platform valid_config
     (always (Resolved JNull (Some (http_error 500
        ''{\"manualEntryRequired\":true,\"productName\":\"Organic Milk\"}''))))
     barcode_request
   = (Inr \<lparr> name = JStr ''Organic Milk'', category = JStr ''General'',
            shelfLifeDays = Days 7, confidenceScore = JNum 0,
            expiryDate = JUndefined, manualEntryRequired = JBool True \<rparr>,
      [\<lparr> body_code = ''123456'', body_imageUri = None \<rparr>])"
proof -
  let ?body = "''{\"manualEntryRequired\":true,\"productName\":\"Organic Milk\"}''"
  let ?kvs = "[(''manualEntryRequired'', JBool True), (''productName'', JStr ''Organic Milk'')]"
  have h1: "hasInput barcode_request" by code_simp
  have h2: "configOK valid_config" by code_simp
  have h3: "always (Resolved JNull (Some (http_error 500 ?body))) (requestBody barcode_request)
      = Resolved JNull (Some (http_error 500 ?body))"
    by (simp add: always_def)
  have h4: "extractErrorBody (http_error 500 ?body) = Some ?body" by code_simp
  have h5: "?body \<noteq> []" by simp
  have h6: "JSON_parse example_platform ?body = Some (JObj ?kvs)" by code_simp
  have h7: "field ?kvs ''manualEntryRequired'' = JBool True" by code_simp
  have h8: "err_serialisable (http_error 500 ?body)" by code_simp
  have days: "calculateShelfLifeDays example_platform (field ?kvs ''expiryDate'') = Inr (Days 7)"
    by code_simp
  have fields:
    "js_or (field ?kvs ''productName'') (JStr ''Unknown Product'') = JStr ''Organic Milk''"
    "js_or (field ?kvs ''category'') (JStr ''General'') = JStr ''General''"
    "js_or (field ?kvs ''confidenceScore'') (JNum 0) = JNum 0"
    "field ?kvs ''expiryDate'' = JUndefined"
    "requestBody barcode_request = \<lparr> body_code = ''123456'', body_imageUri = None \<rparr>"
    by code_simp+
  from analyzeProduct_error_body_manual_entry
    [where invoke = "always (Resolved JNull (Some (http_error 500 ?body)))",
      OF h1 h2 h3 h4 h5 h6 h7 h8] days
  show ?thesis
    unfolding fields by auto
qed

text \<open>
  Claim C5 as stated fails. A body \<^verbatim>\<open>{"manualEntryRequired":true,"productName":""}\<close>
  has a \<^verbatim>\<open>productName\<close>, and the result is named "Unknown Product". And when the error
  object cannot be serialised, the body
  \<^verbatim>\<open>{"manualEntryRequired":true,"productName":"Organic Milk"}\<close> is extracted and would
  parse, but line 180 throws first and \<^verbatim>\<open>analyzeProduct\<close> throws UNKNOWN_ERROR.
\<close>

theorem analyzeProduct_error_body_manual_entry_counterexample:
  "extractErrorBody (http_error 500 ''{\"manualEntryRequired\":true,\"productName\":\"\"}'')
     = Some ''{\"manualEntryRequired\":true,\"productName\":\"\"}''
   \<and> JSON_parse example_platform ''{\"manualEntryRequired\":true,\"productName\":\"\"}''
     = Some (JObj [(''manualEntryRequired'', JBool True), (''productName'', JStr [])])
   \<and> fst (analyzeProduct example_platform valid_config
          (always (Resolved JNull (Some (http_error 500
             ''{\"manualEntryRequired\":true,\"productName\":\"\"}''))))
          barcode_request)
     = Inr \<lparr> name = JStr ''Unknown Product'', category = JStr ''General'',
             shelfLifeDays = Days 7, confidenceScore = JNum 0,
             expiryDate = JUndefined, manualEntryRequired = JBool True \<rparr>
   \<and> extractErrorBody (unserialisable_http_error 500
          ''{\"manualEntryRequired\":true,\"productName\":\"Organic Milk\"}'')
     = Some ''{\"manualEntryRequired\":true,\"productName\":\"Organic Milk\"}''
   \<and> JSON_parse example_platform
          ''{\"manualEntryRequired\":true,\"productName\":\"Organic Milk\"}''
     = Some (JObj [(''manualEntryRequired'', JBool True),
                   (''productName'', JStr ''Organic Milk'')])
   \<and> fst (analyzeProduct example_platform valid_config
          (always (Resolved JNull (Some (unserialisable_http_error 500
             ''{\"manualEntryRequired\":true,\"productName\":\"Organic Milk\"}''))))
          barcode_request)
     = Inl (AIAnalysisError ''UNKNOWN_ERROR'')"
  by code_simp

subsection \<open>The rate-limit row of the table\<close>

lemma str_includes_nonempty: "str_includes s p \<Longrightarrow> p \<noteq> [] \<Longrightarrow> s \<noteq> []"
  by (cases s) auto

lemma classifyBody_error_text:
  assumes "body \<noteq> []" and "JSON_parse P body = Some (JObj kvs)"
    and "field kvs ''manualEntryRequired'' \<noteq> JBool True"
    and "field kvs ''error'' = JStr msg" and "msg \<noteq> []"
  shows "classifyBody P (Some body) c = Inr (Inr (classifyErrorMsg (toLowerCase msg)))"
  using assms
  by (simp add: classifyBody_def truthy_str_def or_empty_def parseJSON_def bind_def
      try_catch_def toLowerCase_of_def)

text \<open>
  Claim C2, as amended. The claim gives AI_RATE_LIMIT to every error text that contains
  "rate limit", for every HTTP status. The source lets the statuses 401, 400, 502 and 503
  override the code found in the body (lines 238-251), and it tries the rows
  "openai api key", "api key is not configured", "invalid" and "expired" of its table
  before the row "rate limit" (lines 210-218); it also serialises the error object on
  line 180 before it parses the body. What holds: when the invocation fails, the error
  object can be serialised, the extracted body parses to an object that does not set
  \<^verbatim>\<open>manualEntryRequired\<close> to \<^verbatim>\<open>true\<close>, its \<^verbatim>\<open>error\<close> text in lower case contains
  "rate limit" and none of the four earlier patterns, and the status is none of 401,
  400, 502 and 503, then the error thrown carries AI_RATE_LIMIT.
\<close>

theorem analyzeProduct_rate_limit:
  assumes "hasInput options" and "configOK cfg"
    and "invoke (requestBody options) = Resolved data (Some error)"
    and "extractErrorBody error = Some body" and "body \<noteq> []"
    and "JSON_parse P body = Some (JObj kvs)"
    and "field kvs ''manualEntryRequired'' \<noteq> JBool True"
    and "field kvs ''error'' = JStr msg"
    and "str_includes (toLowerCase msg) ''rate limit''"
    and "\<not> str_includes (toLowerCase msg) ''openai api key''"
    and "\<not> str_includes (toLowerCase msg) ''api key is not configured''"
    and "\<not> str_includes (toLowerCase msg) ''invalid''"
    and "\<not> str_includes (toLowerCase msg) ''expired''"
    and "errorStatus error \<notin> {Some 401, Some 400, Some 503, Some 502}"
    and "err_serialisable error"
  shows "fst (analyzeProduct P cfg invoke options) = Inl (AIAnalysisError ''AI_RATE_LIMIT'')"
proof -
  have "toLowerCase msg \<noteq> []"
    using assms(9) str_includes_nonempty by fastforce
  then have "msg \<noteq> []" by (auto simp: toLowerCase_def)
  with assms(5-8) have "classifyBody P (Some body) ''UNKNOWN_ERROR''
      = Inr (Inr (classifyErrorMsg (toLowerCase msg)))"
    by (rule classifyBody_error_text)
  moreover have "classifyErrorMsg (toLowerCase msg) = ''AI_RATE_LIMIT''"
    using assms(9-13) by (simp add: classifyErrorMsg_def)
  moreover have "applyStatus (errorStatus error) (Some body) ''AI_RATE_LIMIT'' = ''AI_RATE_LIMIT''"
    using assms(5,14) by (simp add: applyStatus_def truthy_str_def)
  ultimately have "handleInvokeError P error = Inl (AIAnalysisError ''AI_RATE_LIMIT'')"
    using assms(4,15)
    by (simp add: handleInvokeError_def JSON_stringify_def bind_def code_or_default_def)
  then show ?thesis
    using analyzeProduct_invokes [OF assms(1,2), of P invoke] assms(3) by (simp add: rethrow_def)
qed

theorem analyzeProduct_rate_limit_witness:
  "fst (analyzeProduct example_platform valid_config
          (always (Resolved JNull (Some (http_error 429 ''{\"error\":\"rate limit exceeded\"}''))))
          barcode_request)
     = Inl (AIAnalysisError ''AI_RATE_LIMIT'')"
proof (rule analyzeProduct_rate_limit)
  show "hasInput barcode_request" by code_simp
  show "configOK valid_config" by code_simp
  show "always (Resolved JNull (Some (http_error 429 ''{\"error\":\"rate limit exceeded\"}'')))
          (requestBody barcode_request)
        = Resolved JNull (Some (http_error 429 ''{\"error\":\"rate limit exceeded\"}''))"
    by (simp add: always_def)
  show "extractErrorBody (http_error 429 ''{\"error\":\"rate limit exceeded\"}'')
        = Some ''{\"error\":\"rate limit exceeded\"}''"
    by code_simp
  show "''{\"error\":\"rate limit exceeded\"}'' \<noteq> []" by simp
  show "JSON_parse example_platform ''{\"error\":\"rate limit exceeded\"}''
        = Some (JObj [(''error'', JStr ''rate limit exceeded'')])"
    by code_simp
  show "field [(''error'', JStr ''rate limit exceeded'')] ''manualEntryRequired'' \<noteq> JBool True"
    by code_simp
  show "field [(''error'', JStr ''rate limit exceeded'')] ''error'' = JStr ''rate limit exceeded''"
    by code_simp
  show "str_includes (toLowerCase ''rate limit exceeded'') ''rate limit''" by code_simp
  show "\<not> str_includes (toLowerCase ''rate limit exceeded'') ''openai api key''" by code_simp
  show "\<not> str_includes (toLowerCase ''rate limit exceeded'') ''api key is not configured''"
    by code_simp
  show "\<not> str_includes (toLowerCase ''rate limit exceeded'') ''invalid''" by code_simp
  show "\<not> str_includes (toLowerCase ''rate limit exceeded'') ''expired''" by code_simp
  show "errorStatus (http_error 429 ''{\"error\":\"rate limit exceeded\"}'')
        \<notin> {Some 401, Some 400, Some 503, Some 502}"
    by code_simp
  show "err_serialisable (http_error 429 ''{\"error\":\"rate limit exceeded\"}'')"
    by code_simp
qed

text \<open>
  Claim C2 as stated fails. A 401 whose body is \<^verbatim>\<open>{"error":"rate limit exceeded"}\<close> is
  thrown as AUTH_FAILED: the status overrides the body. A 500 whose error text is
  "Invalid API key or rate limit exceeded" is thrown as AI_AUTH_FAILED: the row "invalid"
  comes first. Both error texts contain "rate limit". And a 429 with the first body on
  an error object that cannot be serialised is thrown as UNKNOWN_ERROR.
\<close>

theorem analyzeProduct_rate_limit_counterexample:
  "str_includes ''rate limit exceeded'' ''rate limit''
   \<and> fst (analyzeProduct example_platform valid_config
          (always (Resolved JNull (Some (http_error 401 ''{\"error\":\"rate limit exceeded\"}''))))
          barcode_request)
     = Inl (AIAnalysisError ''AUTH_FAILED'')
   \<and> str_includes ''Invalid API key or rate limit exceeded'' ''rate limit''
   \<and> fst (analyzeProduct example_platform valid_config
          (always (Resolved JNull (Some (http_error 500
             ''{\"error\":\"Invalid API key or rate limit exceeded\"}''))))
          barcode_request)
     = Inl (AIAnalysisError ''AI_AUTH_FAILED'')
   \<and> fst (analyzeProduct example_platform valid_config
          (always (Resolved JNull (Some (unserialisable_http_error 429
             ''{\"error\":\"rate limit exceeded\"}''))))
          barcode_request)
     = Inl (AIAnalysisError ''UNKNOWN_ERROR'')"
  by code_simp

subsection \<open>The codes that can be thrown\<close>

lemma classifyErrorMsg_vocabulary: "classifyErrorMsg m \<in> set error_vocabulary"
  by (simp add: classifyErrorMsg_def error_vocabulary_def)

lemma classifyBody_code:
  assumes "classifyBody P errorBody c0 = Inr (Inr c)"
  shows "c = c0 \<or> (\<exists>m. c = classifyErrorMsg m)"
  using assms
  by (auto simp: classifyBody_def try_catch_def bind_def toLowerCase_of_def
      split: if_splits sum.splits jsval.splits)

lemma classifyBody_never_throws: "classifyBody P errorBody c0 \<noteq> Inl e"
  by (auto simp: classifyBody_def try_catch_def split: sum.splits)

lemma applyStatus_vocabulary:
  assumes "c \<in> set error_vocabulary"
  shows "applyStatus st errorBody c \<in> set error_vocabulary"
  using assms by (simp add: applyStatus_def error_vocabulary_def)

lemma vocabulary_nonempty: "c \<in> set error_vocabulary \<Longrightarrow> c \<noteq> []"
  by (auto simp: error_vocabulary_def)

lemma handleInvokeError_throws:
  assumes "handleInvokeError P error = Inl e"
  shows "\<exists>c. rethrow e = AIAnalysisError c \<and> c \<in> set error_vocabulary"
proof (cases "err_serialisable error")
  case False
  with assms have "e = TypeError"
    by (simp add: handleInvokeError_def JSON_stringify_def bind_def)
  then show ?thesis by (simp add: rethrow_def error_vocabulary_def)
next
  case True
  let ?body = "extractErrorBody error"
  obtain r where r: "classifyBody P ?body ''UNKNOWN_ERROR'' = Inr r"
    using classifyBody_never_throws [of P ?body "''UNKNOWN_ERROR''"]
    by (cases "classifyBody P ?body ''UNKNOWN_ERROR''") auto
  show ?thesis
  proof (cases r)
    case (Inl result)
    with r assms True show ?thesis
      by (simp add: handleInvokeError_def JSON_stringify_def bind_def)
  next
    case (Inr c)
    with r have "c = ''UNKNOWN_ERROR'' \<or> (\<exists>m. c = classifyErrorMsg m)"
      using classifyBody_code by blast
    then have "c \<in> set error_vocabulary"
      using classifyErrorMsg_vocabulary by (auto simp: error_vocabulary_def)
    then have v: "applyStatus (errorStatus error) ?body c \<in> set error_vocabulary"
      by (rule applyStatus_vocabulary)
    then have "code_or_default (applyStatus (errorStatus error) ?body c)
        = applyStatus (errorStatus error) ?body c"
      using vocabulary_nonempty by (simp add: code_or_default_def)
    with v r Inr assms True show ?thesis
      by (auto simp: handleInvokeError_def JSON_stringify_def bind_def rethrow_def)
  qed
qed

lemma interpretData_throws:
  assumes "interpretData P data = Inl e"
  shows "e = AIAnalysisError ''NO_RESPONSE'' \<or> e = AIAnalysisError ''AI_SERVICE_ERROR''"
proof (cases "truthy data")
  case False
  with assms show ?thesis by (simp add: interpretData_def)
next
  case True
  obtain d where d: "calculateShelfLifeDays P JUndefined = Inr d"
    using calculateShelfLifeDays_returns by blast
  show ?thesis
  proof (cases data)
    case (JObj kvs)
    obtain d' where "calculateShelfLifeDays P (field kvs ''expiryDate'') = Inr d'"
      using calculateShelfLifeDays_returns by blast
    with assms JObj show ?thesis
      by (simp add: interpretData_def bind_def split: if_splits)
  qed (use assms True d in \<open>simp_all add: interpretData_def bind_def split: if_splits\<close>)
qed

lemma guard_codes_in_vocabulary:
  "''MISSING_INPUT'' \<in> set error_vocabulary"
  "''NOT_CONFIGURED'' \<in> set error_vocabulary"
  "''PLACEHOLDER_CREDENTIALS'' \<in> set error_vocabulary"
  "''WRONG_KEY_TYPE'' \<in> set error_vocabulary"
  "''UNKNOWN_ERROR'' \<in> set error_vocabulary"
  "''NO_RESPONSE'' \<in> set error_vocabulary"
  "''AI_SERVICE_ERROR'' \<in> set error_vocabulary"
  by (simp_all add: error_vocabulary_def)

lemma fallback_not_in_vocabulary: "''EDGE_FUNCTION_ERROR'' \<notin> set error_vocabulary"
  by (simp add: error_vocabulary_def)

lemma analyzeProduct_guards_throw:
  assumes "\<not> (hasInput options \<and> configOK cfg)"
  shows "fst (analyzeProduct P cfg invoke options) \<in>
     {Inl (AIAnalysisError ''MISSING_INPUT''), Inl (AIAnalysisError ''NOT_CONFIGURED''),
      Inl (AIAnalysisError ''PLACEHOLDER_CREDENTIALS''), Inl (AIAnalysisError ''WRONG_KEY_TYPE'')}"
proof (cases "hasInput options")
  case False
  then show ?thesis by (simp add: analyzeProduct_def hasInput_def)
next
  case True
  with assms have "\<not> configOK cfg" by simp
  with True show ?thesis
    by (auto simp: analyzeProduct_def tryBody_def hasInput_def configOK_def rethrow_def)
qed

text \<open>
  Claim C8. Whatever \<^verbatim>\<open>analyzeProduct\<close> throws is an \<^verbatim>\<open>AIAnalysisError\<close> whose code is
  one of the seventeen codes of the closed vocabulary; in particular the fallback
  EDGE_FUNCTION_ERROR of line 275 is never the code of a thrown error.
\<close>

theorem analyzeProduct_codes_closed:
  assumes "fst (analyzeProduct P cfg invoke options) = Inl e"
  shows "\<exists>c. e = AIAnalysisError c \<and> c \<in> set error_vocabulary \<and> c \<noteq> ''EDGE_FUNCTION_ERROR''"
proof -
  have "\<exists>c. e = AIAnalysisError c \<and> c \<in> set error_vocabulary"
  proof (cases "hasInput options \<and> configOK cfg")
    case False
    from analyzeProduct_guards_throw [OF this, of P invoke] assms
    have "e = AIAnalysisError ''MISSING_INPUT'' \<or> e = AIAnalysisError ''NOT_CONFIGURED''
        \<or> e = AIAnalysisError ''PLACEHOLDER_CREDENTIALS'' \<or> e = AIAnalysisError ''WRONG_KEY_TYPE''"
      by simp
    then show ?thesis using guard_codes_in_vocabulary by blast
  next
    case True
    then have eq: "fst (analyzeProduct P cfg invoke options) =
       (case invoke (requestBody options) of
          Rejected \<Rightarrow> Inl (AIAnalysisError ''UNKNOWN_ERROR'')
        | Resolved data (Some error) \<Rightarrow> map_sum rethrow id (handleInvokeError P error)
        | Resolved data None \<Rightarrow> map_sum rethrow id (interpretData P data))"
      by (simp add: analyzeProduct_invokes)
    show ?thesis
    proof (cases "invoke (requestBody options)")
      case Rejected
      with eq assms have "e = AIAnalysisError ''UNKNOWN_ERROR''" by simp
      then show ?thesis using guard_codes_in_vocabulary by blast
    next
      case (Resolved data err)
      show ?thesis
      proof (cases err)
        case None
        with eq assms Resolved obtain e' where
          "interpretData P data = Inl e'" and "e = rethrow e'"
          by (cases "interpretData P data") auto
        then have "e = AIAnalysisError ''NO_RESPONSE'' \<or> e = AIAnalysisError ''AI_SERVICE_ERROR''"
          using interpretData_throws [of P data e'] by (auto simp: rethrow_def)
        then show ?thesis using guard_codes_in_vocabulary by blast
      next
        case (Some error)
        with eq assms Resolved obtain e' where
          "handleInvokeError P error = Inl e'" and "e = rethrow e'"
          by (cases "handleInvokeError P error") auto
        then show ?thesis
          using handleInvokeError_throws [of P error e'] by simp
      qed
    qed
  qed
  then show ?thesis using fallback_not_in_vocabulary by blast
qed

theorem analyzeProduct_codes_closed_witness:
  "\<exists>c. fst (analyzeProduct example_platform valid_config
            (always (Resolved JNull (Some (http_error 404 ''Not Found'')))) barcode_request)
         = Inl (AIAnalysisError c)
       \<and> c \<in> set error_vocabulary \<and> c \<noteq> ''EDGE_FUNCTION_ERROR''"
proof -
  have h: "fst (analyzeProduct example_platform valid_config
            (always (Resolved JNull (Some (http_error 404 ''Not Found'')))) barcode_request)
         = Inl (AIAnalysisError ''UNKNOWN_ERROR'')"
    by code_simp
  from analyzeProduct_codes_closed [OF h] obtain c where
    "AIAnalysisError ''UNKNOWN_ERROR'' = AIAnalysisError c"
    "c \<in> set error_vocabulary" "c \<noteq> ''EDGE_FUNCTION_ERROR''"
    by blast
  with h show ?thesis by blast
qed

section \<open>Manual entry: theorems\<close>

text \<open>
  The \<^verbatim>\<open>catch\<close> of lines 67-74 is never entered: no run raises the "Invalid Date"
  alert, and the inventory store is written to exactly when the name and the expiry
  date are non-empty after trimming.
\<close>

lemma handleSubmit_never_invalid_date:
  "''Invalid Date'' \<notin> set (alerts (handleSubmit P addInventoryItem initialBarcode f))"
  by (simp add: handleSubmit_def computeDaysLeft_def getTime_def bind_def Let_def)

lemma handleSubmit_writes:
  "store_calls (handleSubmit P addInventoryItem initialBarcode f) = [] \<longleftrightarrow>
     trim (form_productName f) = [] \<or> trim (form_expiryDate f) = []"
  by (simp add: handleSubmit_def computeDaysLeft_def getTime_def bind_def Let_def)

text \<open>
  Claim C6 asks that a submission whose expiry date does not parse be aborted with an
  "invalid date" notice, without a store write and with the fields kept. The source
  does otherwise: with the name "Milk" and the expiry date "not-a-date" the day count is
  \<^verbatim>\<open>NaN\<close>, nothing is thrown, the record is handed to the store with the unparsed date,
  the "Success" alert is raised and the form is cleared.
\<close>

theorem handleSubmit_unparsable_date_saved:
  "Date_parse example_platform (form_expiryDate milk_form) = None
   \<and> handleSubmit example_platform store_accepts None milk_form =
     \<lparr> form_after = \<lparr> form_productName = [], form_category = [], form_barcode = [],
                      form_expiryDate = [], form_saving = False \<rparr>,
       alerts = [''Success''],
       store_calls = [\<lparr> item_barcode = ''Manual Entry'', product_name = ''Milk'',
                        item_category = ''General'', expiry_date = ''not-a-date'',
                        ai_confidence = 1 \<rparr>] \<rparr>"
  by code_simp

end
